theory Spec2Isabelle
  imports Main "HOL-Library.Sublist"
begin

section \<open>The Pub/Sub worker of functions/worker.ts\<close>

text \<open>
  The worker function of \<^verbatim>\<open>src/functions/worker.ts\<close> decodes a Pub/Sub event, runs
  the \<^verbatim>\<open>cursor-agent\<close> binary in a directory under \<^verbatim>\<open>/tmp\<close> with a watchdog timer,
  and posts the captured standard output to GitHub or Slack. The embedding below follows
  the file function by function. Everything the code asks of Node.js and of the
  operating system is either a parameter (\<open>platform\<close>: pure library functions,
  \<open>world\<close>: what the environment answers during one invocation) or an entry of the
  effect log that every function returns. The check at module load that the binary is
  installed (lines 11 to 22) runs before any event is handled and is not part of the
  model.
\<close>

subsection \<open>JavaScript values\<close>

text \<open>
  The message is typed \<^verbatim>\<open>any\<close>: it is whatever \<^verbatim>\<open>JSON.parse\<close> returned. Numbers are
  modelled as integers (exit codes, whole seconds); a string is the list of its code
  units; an object is an association list read with \<open>map_of\<close>.
\<close>

datatype js =
    JUndefined
  | JNull
  | JBool bool
  | JNum int
  | JStr string
  | JArr "js list"
  | JObj "(string \<times> js) list"

text \<open>\<^verbatim>\<open>v == null\<close>: what \<^verbatim>\<open>?.\<close> and \<^verbatim>\<open>??\<close> test.\<close>

fun nullish :: "js \<Rightarrow> bool" where
  "nullish JUndefined = True"
| "nullish JNull = True"
| "nullish (JBool b) = False"
| "nullish (JNum n) = False"
| "nullish (JStr s) = False"
| "nullish (JArr vs) = False"
| "nullish (JObj kvs) = False"

text \<open>ToBoolean: what \<^verbatim>\<open>!v\<close> and \<^verbatim>\<open>v || w\<close> test.\<close>

fun truthy :: "js \<Rightarrow> bool" where
  "truthy JUndefined = False"
| "truthy JNull = False"
| "truthy (JBool b) = b"
| "truthy (JNum n) = (n \<noteq> 0)"
| "truthy (JStr s) = (s \<noteq> [])"
| "truthy (JArr vs) = True"
| "truthy (JObj kvs) = True"

text \<open>
  Reading a property of a value that is not nullish. The worker reads only the names
  \<^verbatim>\<open>correlation_id\<close>, \<^verbatim>\<open>timeouts\<close>, \<^verbatim>\<open>hard_seconds\<close>, \<^verbatim>\<open>agent\<close>, \<^verbatim>\<open>name\<close>, \<^verbatim>\<open>reply\<close>,
  \<^verbatim>\<open>type\<close>, \<^verbatim>\<open>targets\<close>, \<^verbatim>\<open>repo\<close>, \<^verbatim>\<open>pr\<close>, \<^verbatim>\<open>token\<close> and \<^verbatim>\<open>response_url\<close>, none of
  which a string, number, boolean or array has: there the result is \<^verbatim>\<open>undefined\<close>.
\<close>

fun js_prop :: "js \<Rightarrow> string \<Rightarrow> js" where
  "js_prop (JObj kvs) p = (case map_of kvs p of None \<Rightarrow> JUndefined | Some v \<Rightarrow> v)"
| "js_prop JUndefined p = JUndefined"
| "js_prop JNull p = JUndefined"
| "js_prop (JBool b) p = JUndefined"
| "js_prop (JNum n) p = JUndefined"
| "js_prop (JStr s) p = JUndefined"
| "js_prop (JArr vs) p = JUndefined"

datatype error =
    MissingData          \<comment> \<open>\<^verbatim>\<open>Error("Malformed Pub/Sub message: missing data field")\<close>\<close>
  | SyntaxError          \<comment> \<open>thrown by \<^verbatim>\<open>JSON.parse\<close>\<close>
  | TypeError            \<comment> \<open>a property of \<^verbatim>\<open>null\<close>/\<^verbatim>\<open>undefined\<close> read, a non-function called, or
                             an argument that \<^verbatim>\<open>spawn\<close> refuses\<close>
  | MissingKey           \<comment> \<open>\<^verbatim>\<open>Error("missing CURSOR_API_KEY")\<close>\<close>
  | FsError              \<comment> \<open>thrown by \<^verbatim>\<open>mkdirSync\<close>\<close>
  | SystemError string   \<comment> \<open>thrown by \<^verbatim>\<open>spawn\<close> itself, with its code (\<^verbatim>\<open>E2BIG\<close>)\<close>
  | HardTimeout js       \<comment> \<open>\<^verbatim>\<open>Error(`cursor-agent exceeded ${hardSeconds}s hard timeout`)\<close>\<close>
  | ProcError string     \<comment> \<open>the argument of the child's \<^verbatim>\<open>error\<close> event\<close>
  | CursorFailed string  \<comment> \<open>\<^verbatim>\<open>Error(m)\<close> of line 120, with its message \<open>m\<close>\<close>
  | FetchFailed string   \<comment> \<open>the rejection of \<^verbatim>\<open>fetch\<close>\<close>

text \<open>\<^verbatim>\<open>v.p\<close> throws a TypeError on \<^verbatim>\<open>null\<close> and \<^verbatim>\<open>undefined\<close>; \<^verbatim>\<open>v?.p\<close> gives \<^verbatim>\<open>undefined\<close> there.\<close>

definition get_prop :: "js \<Rightarrow> string \<Rightarrow> error + js" where
  "get_prop v p = (if nullish v then Inl TypeError else Inr (js_prop v p))"

definition opt_prop :: "js \<Rightarrow> string \<Rightarrow> js" where
  "opt_prop v p = (if nullish v then JUndefined else js_prop v p)"

text \<open>\<^verbatim>\<open>a ?? b\<close> and \<^verbatim>\<open>a || b\<close>.\<close>

definition nullish_or :: "js \<Rightarrow> js \<Rightarrow> js" where
  "nullish_or a b = (if nullish a then b else a)"

definition falsy_or :: "js \<Rightarrow> js \<Rightarrow> js" where
  "falsy_or a b = (if truthy a then a else b)"

subsection \<open>The platform and the environment\<close>

text \<open>
  Library functions of Node.js that the worker calls and that are pure:
  \<open>base64_decode\<close> is \<^verbatim>\<open>Buffer.from(b64, "base64").toString()\<close>, \<open>json_parse\<close> is
  \<^verbatim>\<open>JSON.parse\<close> (\<open>None\<close> when it throws), \<open>json_stringify\<close> is \<^verbatim>\<open>JSON.stringify\<close>, and
  \<open>to_string\<close> is ToString on numbers, arrays and objects.
\<close>

record platform =
  base64_decode :: "string \<Rightarrow> string"
  json_parse :: "string \<Rightarrow> js option"
  json_stringify :: "js \<Rightarrow> string"
  to_string :: "js \<Rightarrow> string"

text \<open>A value inside a template literal: \<^verbatim>\<open>`${v}`\<close>.\<close>

fun template_str :: "platform \<Rightarrow> js \<Rightarrow> string" where
  "template_str P (JStr s) = s"
| "template_str P JUndefined = ''undefined''"
| "template_str P JNull = ''null''"
| "template_str P (JBool b) = (if b then ''true'' else ''false'')"
| "template_str P (JNum n) = to_string P (JNum n)"
| "template_str P (JArr vs) = to_string P (JArr vs)"
| "template_str P (JObj kvs) = to_string P (JObj kvs)"

text \<open>
  The callbacks that the event loop runs for one child process, in the order it runs
  them: data on the two pipes, the watchdog timer (\<open>TimerFired\<close>), the \<^verbatim>\<open>close\<close> event
  with the exit code (\<^verbatim>\<open>null\<close> when a signal ended the process) and the \<^verbatim>\<open>error\<close> event.
\<close>

datatype proc_event =
    StdoutData string
  | StderrData string
  | TimerFired
  | Close "int option"
  | ErrorEvent string

text \<open>
  What the call of \<^verbatim>\<open>spawn\<close> does: it throws (a TypeError on an argument that holds a NUL
  byte, a system error on an argument list that is too long), and then there is no
  child and no callback; or it returns a child, whose callbacks the event loop runs in
  the order given.
\<close>

datatype spawn_result =
    SpawnThrows error
  | Spawned "proc_event list"

record http_request =
  url :: js
  http_method :: string
  headers :: "(string \<times> string) list"
  body :: string

datatype fetch_result =
    Responded int        \<comment> \<open>the promise resolves with a response of this status\<close>
  | NetworkError string  \<comment> \<open>the promise rejects\<close>
  | NoResponse           \<comment> \<open>the promise never settles\<close>

text \<open>
  What the environment answers during one invocation of the worker. An environment of
  variables is an association list in which the first binding of a name counts, so
  \<^verbatim>\<open>{ ...env, K: v }\<close> puts the binding of \<open>K\<close> in front. \<open>spawned\<close> is what the call of
  \<^verbatim>\<open>spawn\<close> does in this invocation; the events of a child are the order in which the
  event loop runs its callbacks and the watchdog's: how long the child runs against the
  deadline is the position of \<open>TimerFired\<close> among them.
\<close>

record world =
  process_env :: "(string \<times> string) list"
  random_uuid :: string                       \<comment> \<open>what \<^verbatim>\<open>crypto.randomUUID()\<close> returns\<close>
  mkdir_fails :: "string \<Rightarrow> bool"             \<comment> \<open>whether \<^verbatim>\<open>mkdirSync\<close> throws on this path\<close>
  spawned :: spawn_result
  group_kill_fails :: bool                    \<comment> \<open>whether \<^verbatim>\<open>process.kill(-pid, "SIGKILL")\<close> throws\<close>
  fetch_outcome :: "http_request \<Rightarrow> fetch_result"

text \<open>The callbacks that run in this invocation: none when \<^verbatim>\<open>spawn\<close> threw.\<close>

definition proc_events :: "world \<Rightarrow> proc_event list" where
  "proc_events W = (case spawned W of SpawnThrows e \<Rightarrow> [] | Spawned evs \<Rightarrow> evs)"

record spawn_call =
  bin :: string
  argv :: "js list"
  spawn_env :: "(string \<times> string) list"
  cwd :: string
  shell :: bool
  detached :: bool

text \<open>
  The calls that reach outside the function, in program order; a call is logged when
  it is made, also when it throws. \<open>SetTimeout h\<close> is
  \<^verbatim>\<open>setTimeout(cb, h * 1000)\<close>; \<open>KillGroup\<close> is \<^verbatim>\<open>process.kill(-proc.pid, "SIGKILL")\<close> and
  \<open>KillProc\<close> is \<^verbatim>\<open>proc.kill("SIGKILL")\<close>.
\<close>

datatype effect =
    Mkdir string
  | Spawn spawn_call
  | SetTimeout js
  | KillGroup
  | KillProc
  | HttpPost http_request

text \<open>How a promise ends.\<close>

datatype 'a outcome = Pending | Rejected error | Fulfilled 'a

subsection \<open>decode\<close>

datatype PubSubMessage = PubSubMessage (message_data: "string option")
datatype PubSubData = PubSubData (data_message: "PubSubMessage option")
datatype PubSubEvent = PubSubEvent (event_data: "PubSubData option")

text \<open>\<^verbatim>\<open>event?.data?.message?.data\<close>\<close>

definition event_b64 :: "PubSubEvent \<Rightarrow> string option" where
  "event_b64 event =
     (case event_data event of
        None \<Rightarrow> None
      | Some d \<Rightarrow> (case data_message d of None \<Rightarrow> None | Some m \<Rightarrow> message_data m))"

definition decode :: "platform \<Rightarrow> PubSubEvent \<Rightarrow> error + js" where
  "decode P event =
     (case event_b64 event of
        None \<Rightarrow> Inl MissingData
      | Some b64 \<Rightarrow>
          if b64 = [] then Inl MissingData
          else (case json_parse P (base64_decode P b64) of
                  None \<Rightarrow> Inl SyntaxError
                | Some msg \<Rightarrow> Inr msg))"

subsection \<open>runAgent\<close>

definition CURSOR_BIN :: string where
  "CURSOR_BIN = ''cursor-agent''"

record exec_result =
  code :: int
  stdout :: string
  stderr :: string

text \<open>
  The variables of the promise's executor: the two buffers, whether the watchdog is
  still armed, and the promise itself, which keeps the first of \<^verbatim>\<open>resolve\<close> and
  \<^verbatim>\<open>reject\<close>.
\<close>

record run_state =
  out :: string
  err :: string
  timer_armed :: bool
  settled :: "(error + exec_result) option"
  kills :: "effect list"

definition settle :: "error + exec_result \<Rightarrow> run_state \<Rightarrow> run_state" where
  "settle r s = (case settled s of None \<Rightarrow> s\<lparr>settled := Some r\<rparr> | Some old \<Rightarrow> s)"

text \<open>
  One equation per callback: lines 56 and 57 (data), lines 59 to 68 (the watchdog: the
  group is signalled, the child itself when that throws, then \<^verbatim>\<open>reject\<close>), lines 70 to 73
  (\<^verbatim>\<open>close\<close>: \<^verbatim>\<open>clearTimeout\<close>, then \<^verbatim>\<open>resolve\<close> with \<^verbatim>\<open>code ?? 1\<close>) and lines 75 to 78
  (\<^verbatim>\<open>error\<close>: \<^verbatim>\<open>clearTimeout\<close>, then \<^verbatim>\<open>reject\<close>). A timer that was cleared or has fired
  does not fire. \<open>gkf\<close> says whether signalling the group throws.
\<close>

fun on_event :: "bool \<Rightarrow> js \<Rightarrow> run_state \<Rightarrow> proc_event \<Rightarrow> run_state" where
  "on_event gkf hardSeconds s (StdoutData d) = s\<lparr>out := out s @ d\<rparr>"
| "on_event gkf hardSeconds s (StderrData d) = s\<lparr>err := err s @ d\<rparr>"
| "on_event gkf hardSeconds s TimerFired =
     (if timer_armed s
      then settle (Inl (HardTimeout hardSeconds))
             (s\<lparr>timer_armed := False,
                kills := kills s @ (if gkf then [KillGroup, KillProc] else [KillGroup])\<rparr>)
      else s)"
| "on_event gkf hardSeconds s (Close c) =
     settle (Inr \<lparr>code = (case c of None \<Rightarrow> 1 | Some n \<Rightarrow> n), stdout = out s, stderr = err s\<rparr>)
       (s\<lparr>timer_armed := False\<rparr>)"
| "on_event gkf hardSeconds s (ErrorEvent e) =
     settle (Inl (ProcError e)) (s\<lparr>timer_armed := False\<rparr>)"

definition run_events :: "bool \<Rightarrow> js \<Rightarrow> run_state \<Rightarrow> proc_event list \<Rightarrow> run_state" where
  "run_events gkf hardSeconds s evs = foldl (on_event gkf hardSeconds) s evs"

definition init_state :: run_state where
  "init_state = \<lparr>out = [], err = [], timer_armed = True, settled = None, kills = []\<rparr>"

definition sandbox_of :: "platform \<Rightarrow> js \<Rightarrow> string" where
  "sandbox_of P correlationId = ''/tmp/'' @ template_str P correlationId"

definition spawn_of :: "js list \<Rightarrow> (string \<times> string) list \<Rightarrow> string \<Rightarrow> spawn_call" where
  "spawn_of args env sandbox =
     \<lparr>bin = CURSOR_BIN, argv = args,
      spawn_env = [(''HOME'', sandbox),
                   (''XDG_CACHE_HOME'', sandbox @ ''/.cache''),
                   (''XDG_CONFIG_HOME'', sandbox @ ''/.config'')] @ env,
      cwd = sandbox, shell = False, detached = True\<rparr>"

definition promise_of :: "run_state \<Rightarrow> exec_result outcome" where
  "promise_of s =
     (case settled s of
        None \<Rightarrow> Pending
      | Some (Inl e) \<Rightarrow> Rejected e
      | Some (Inr r) \<Rightarrow> Fulfilled r)"

text \<open>
  \<^verbatim>\<open>mkdirSync\<close> throws before the promise exists; to the worker, which awaits the call,
  that is a rejection. When \<^verbatim>\<open>spawn\<close> throws (line 41), the executor of the promise
  throws: the promise is rejected with that error, no listener is registered and
  \<^verbatim>\<open>setTimeout\<close> is not called. A binary that cannot be started is reported by the
  \<^verbatim>\<open>error\<close> event of the child that \<^verbatim>\<open>spawn\<close> returned.
\<close>

definition runAgent ::
  "platform \<Rightarrow> world \<Rightarrow> js list \<Rightarrow> (string \<times> string) list \<Rightarrow> js \<Rightarrow> js
     \<Rightarrow> exec_result outcome \<times> effect list" where
  "runAgent P W args env correlationId hardSeconds =
     (let sandbox = sandbox_of P correlationId in
      if mkdir_fails W sandbox then (Rejected FsError, [Mkdir sandbox])
      else
        (case spawned W of
           SpawnThrows e \<Rightarrow>
             (Rejected e, [Mkdir sandbox, Spawn (spawn_of args env sandbox)])
         | Spawned evs \<Rightarrow>
             (let s = run_events (group_kill_fails W) hardSeconds init_state evs
              in (promise_of s,
                  [Mkdir sandbox, Spawn (spawn_of args env sandbox), SetTimeout hardSeconds]
                    @ kills s))))"

subsection \<open>postGitHub and the two sinks\<close>

text \<open>\<^verbatim>\<open>await fetch(...)\<close>: the request is sent, the response is never read.\<close>

fun await_fetch :: "fetch_result \<Rightarrow> unit outcome" where
  "await_fetch (Responded status) = Fulfilled ()"
| "await_fetch (NetworkError e) = Rejected (FetchFailed e)"
| "await_fetch NoResponse = Pending"

definition github_request :: "platform \<Rightarrow> js \<Rightarrow> string \<Rightarrow> http_request" where
  "github_request P targets body_text =
     \<lparr>url = JStr (''https://api.github.com/repos/'' @ template_str P (js_prop targets ''repo'')
                   @ ''/issues/'' @ template_str P (js_prop targets ''pr'') @ ''/comments''),
      http_method = ''POST'',
      headers = [(''Authorization'', ''Bearer '' @ template_str P (js_prop targets ''token'')),
                 (''Accept'', ''application/vnd.github+json''),
                 (''Content-Type'', ''application/json'')],
      body = json_stringify P (JObj [(''body'', JStr body_text)])\<rparr>"

text \<open>
  \<^verbatim>\<open>targets.repo\<close> is read first and throws when \<^verbatim>\<open>targets\<close> is \<^verbatim>\<open>null\<close> or \<^verbatim>\<open>undefined\<close>:
  then \<^verbatim>\<open>fetch\<close> is not called.
\<close>

definition postGitHub :: "platform \<Rightarrow> world \<Rightarrow> js \<Rightarrow> string \<Rightarrow> unit outcome \<times> effect list" where
  "postGitHub P W targets body_text =
     (if nullish targets then (Rejected TypeError, [])
      else (let req = github_request P targets body_text
            in (await_fetch (fetch_outcome W req), [HttpPost req])))"

text \<open>
  \<^verbatim>\<open>msg.reply?.type?.startsWith("github.")\<close>: \<^verbatim>\<open>undefined\<close> (falsy) when the type is
  nullish, a TypeError when the type is not a string (it has no \<^verbatim>\<open>startsWith\<close>).
\<close>

definition reply_type :: "js \<Rightarrow> js" where
  "reply_type msg = opt_prop (js_prop msg ''reply'') ''type''"

fun starts_with_github :: "js \<Rightarrow> error + bool" where
  "starts_with_github (JStr s) = Inr (prefix ''github.'' s)"
| "starts_with_github JUndefined = Inr False"
| "starts_with_github JNull = Inr False"
| "starts_with_github (JBool b) = Inl TypeError"
| "starts_with_github (JNum n) = Inl TypeError"
| "starts_with_github (JArr vs) = Inl TypeError"
| "starts_with_github (JObj kvs) = Inl TypeError"

definition github_step :: "platform \<Rightarrow> world \<Rightarrow> js \<Rightarrow> string \<Rightarrow> unit outcome \<times> effect list" where
  "github_step P W msg out_text =
     (case starts_with_github (reply_type msg) of
        Inl e \<Rightarrow> (Rejected e, [])
      | Inr False \<Rightarrow> (Fulfilled (), [])
      | Inr True \<Rightarrow>
          (case get_prop (js_prop msg ''reply'') ''targets'' of
             Inl e \<Rightarrow> (Rejected e, [])
           | Inr targets \<Rightarrow> postGitHub P W targets out_text))"

definition slack_request :: "platform \<Rightarrow> js \<Rightarrow> string \<Rightarrow> http_request" where
  "slack_request P response_url out_text =
     \<lparr>url = response_url,
      http_method = ''POST'',
      headers = [(''Content-Type'', ''application/json'')],
      body = json_stringify P (JObj [(''text'', JStr (take 39000 out_text))])\<rparr>"

definition slack_step :: "platform \<Rightarrow> world \<Rightarrow> js \<Rightarrow> string \<Rightarrow> unit outcome \<times> effect list" where
  "slack_step P W msg out_text =
     (if reply_type msg = JStr ''slack.message''
      then (case get_prop (js_prop msg ''reply'') ''targets'' of
              Inl e \<Rightarrow> (Rejected e, [])
            | Inr targets \<Rightarrow>
                (case get_prop targets ''response_url'' of
                   Inl e \<Rightarrow> (Rejected e, [])
                 | Inr response_url \<Rightarrow>
                     (let req = slack_request P response_url out_text
                      in (await_fetch (fetch_outcome W req), [HttpPost req]))))
      else (Fulfilled (), []))"

text \<open>Lines 122 to 131: the second \<^verbatim>\<open>if\<close> runs only when the first did not throw or hang.\<close>

definition dispatch :: "platform \<Rightarrow> world \<Rightarrow> js \<Rightarrow> string \<Rightarrow> unit outcome \<times> effect list" where
  "dispatch P W msg out_text =
     (case github_step P W msg out_text of
        (Fulfilled u, effs) \<Rightarrow>
          (case slack_step P W msg out_text of (r, effs') \<Rightarrow> (r, effs @ effs'))
      | (Pending, effs) \<Rightarrow> (Pending, effs)
      | (Rejected e, effs) \<Rightarrow> (Rejected e, effs))"

subsection \<open>worker\<close>

text \<open>\<^verbatim>\<open>msg.correlation_id || crypto.randomUUID()\<close>; reading the property throws when
  the payload was the JSON text \<^verbatim>\<open>null\<close>.\<close>

definition correlationId_of :: "world \<Rightarrow> js \<Rightarrow> error + js" where
  "correlationId_of W msg =
     (case get_prop msg ''correlation_id'' of
        Inl e \<Rightarrow> Inl e
      | Inr c \<Rightarrow> Inr (falsy_or c (JStr (random_uuid W))))"

text \<open>\<^verbatim>\<open>msg.timeouts?.hard_seconds ?? 900\<close>, for a message that is not nullish (line 103 has
  read a property of it).\<close>

definition hardSeconds_of :: "js \<Rightarrow> js" where
  "hardSeconds_of msg = nullish_or (opt_prop (js_prop msg ''timeouts'') ''hard_seconds'') (JNum 900)"

definition agent_args :: "platform \<Rightarrow> js \<Rightarrow> js list" where
  "agent_args P msg =
     [JStr ''--name'',
      nullish_or (opt_prop (js_prop msg ''agent'') ''name'') (JStr ''default''),
      JStr ''--input'',
      JStr (json_stringify P msg)]"

text \<open>Lines 120 to 131, once \<^verbatim>\<open>runAgent\<close>'s promise is fulfilled.\<close>

definition after_run ::
  "platform \<Rightarrow> world \<Rightarrow> js \<Rightarrow> exec_result \<Rightarrow> unit outcome \<times> effect list" where
  "after_run P W msg res =
     (if code res \<noteq> 0
      then (Rejected (CursorFailed (''cursor failed: '' @ take 4000 (stderr res))), [])
      else dispatch P W msg (stdout res))"

text \<open>The body of the worker once the message is decoded and the key is read.\<close>

definition run_task ::
  "platform \<Rightarrow> world \<Rightarrow> js \<Rightarrow> string \<Rightarrow> unit outcome \<times> effect list" where
  "run_task P W msg key =
     (case correlationId_of W msg of
        Inl e \<Rightarrow> (Rejected e, [])
      | Inr correlationId \<Rightarrow>
          (case runAgent P W (agent_args P msg) ((''CURSOR_API_KEY'', key) # process_env W)
                  correlationId (hardSeconds_of msg) of
             (Pending, effs) \<Rightarrow> (Pending, effs)
           | (Rejected e, effs) \<Rightarrow> (Rejected e, effs)
           | (Fulfilled res, effs) \<Rightarrow>
               (case after_run P W msg res of (r, effs') \<Rightarrow> (r, effs @ effs'))))"

definition worker :: "platform \<Rightarrow> world \<Rightarrow> PubSubEvent \<Rightarrow> unit outcome \<times> effect list" where
  "worker P W event =
     (case decode P event of
        Inl e \<Rightarrow> (Rejected e, [])
      | Inr msg \<Rightarrow>
          (case map_of (process_env W) ''CURSOR_API_KEY'' of
             None \<Rightarrow> (Rejected MissingKey, [])
           | Some key \<Rightarrow>
               if key = [] then (Rejected MissingKey, [])
               else run_task P W msg key))"

subsection \<open>Vocabulary of the statements\<close>

text \<open>
  The events before the child closes, fails or is killed are data events; what they
  carry is what \<^verbatim>\<open>out\<close> and \<^verbatim>\<open>err\<close> hold when the promise settles. An event list
  \<open>pre @ e # post\<close> with only data events in \<open>pre\<close> is a run in which \<open>e\<close> is the first
  of the watchdog, \<^verbatim>\<open>close\<close> and \<^verbatim>\<open>error\<close> to happen.
\<close>

fun is_data :: "proc_event \<Rightarrow> bool" where
  "is_data (StdoutData d) = True"
| "is_data (StderrData d) = True"
| "is_data TimerFired = False"
| "is_data (Close c) = False"
| "is_data (ErrorEvent e) = False"

fun stdout_of :: "proc_event list \<Rightarrow> string" where
  "stdout_of [] = []"
| "stdout_of (StdoutData d # evs) = d @ stdout_of evs"
| "stdout_of (e # evs) = stdout_of evs"

fun stderr_of :: "proc_event list \<Rightarrow> string" where
  "stderr_of [] = []"
| "stderr_of (StderrData d # evs) = d @ stderr_of evs"
| "stderr_of (e # evs) = stderr_of evs"

text \<open>The request that lines 122 to 131 send for a message, if any.\<close>

definition sink_request :: "platform \<Rightarrow> js \<Rightarrow> string \<Rightarrow> http_request option" where
  "sink_request P msg out_text =
     (let targets = js_prop (js_prop msg ''reply'') ''targets'' in
      case reply_type msg of
        JStr t \<Rightarrow>
          if prefix ''github.'' t then Some (github_request P targets out_text)
          else if t = ''slack.message''
               then Some (slack_request P (js_prop targets ''response_url'') out_text)
               else None
      | _ \<Rightarrow> None)"

subsection \<open>Example inputs\<close>

text \<open>
  A platform that knows the payloads of the examples: the Base64 text of each, its JSON
  text and its value. The examples interpolate strings only.
\<close>

definition example_texts :: "(string \<times> string) list" where
  \<open>example_texts =
     [(''e30='', ''{}''),
      (''eyJjb3JyZWxhdGlvbl9pZCI6Ii4uLy4uL2V0YyIsImFnZW50Ijp7Im5hbWUiOiJ4In19'',
       ''{"correlation_id":"../../etc","agent":{"name":"x"}}''),
      (''eyJhZ2VudCI6eyJuYW1lIjoieCJ9LCJ0aW1lb3V0cyI6eyJoYXJkX3NlY29uZHMiOjB9fQ=='',
       ''{"agent":{"name":"x"},"timeouts":{"hard_seconds":0}}''),
      (''eyJhZ2VudCI6eyJuYW1lIjoieCJ9LCJyZXBseSI6eyJ0eXBlIjoiZ2l0aHViLmlzc3VlX2NvbW1lbnQiLCJ0YXJnZXRzIjp7InJlcG8iOiJvL3IiLCJwciI6IjciLCJ0b2tlbiI6InQifX19'',
       ''{"agent":{"name":"x"},"reply":{"type":"github.issue_comment","targets":{"repo":"o/r","pr":"7","token":"t"}}}''),
      (''eyJhZ2VudCI6eyJuYW1lIjoieCJ9LCJyZXBseSI6eyJ0eXBlIjoic2xhY2subWVzc2FnZSIsInRhcmdldHMiOnsicmVzcG9uc2VfdXJsIjoiaHR0cHM6Ly9ob29rcy50ZXN0L3IifX19'',
       ''{"agent":{"name":"x"},"reply":{"type":"slack.message","targets":{"response_url":"https://hooks.test/r"}}}'')]\<close>

definition traversal_msg :: js where
  "traversal_msg =
     JObj [(''correlation_id'', JStr ''../../etc''), (''agent'', JObj [(''name'', JStr ''x'')])]"

definition zero_deadline_msg :: js where
  "zero_deadline_msg =
     JObj [(''agent'', JObj [(''name'', JStr ''x'')]),
           (''timeouts'', JObj [(''hard_seconds'', JNum 0)])]"

definition github_msg :: js where
  "github_msg =
     JObj [(''agent'', JObj [(''name'', JStr ''x'')]),
           (''reply'', JObj [(''type'', JStr ''github.issue_comment''),
                            (''targets'', JObj [(''repo'', JStr ''o/r''), (''pr'', JStr ''7''),
                                               (''token'', JStr ''t'')])])]"

definition slack_msg :: js where
  "slack_msg =
     JObj [(''agent'', JObj [(''name'', JStr ''x'')]),
           (''reply'', JObj [(''type'', JStr ''slack.message''),
                            (''targets'', JObj [(''response_url'', JStr ''https://hooks.test/r'')])])]"

definition example_values :: "(string \<times> js) list" where
  \<open>example_values =
     [(''{}'', JObj []),
      (''{"correlation_id":"../../etc","agent":{"name":"x"}}'', traversal_msg),
      (''{"agent":{"name":"x"},"timeouts":{"hard_seconds":0}}'', zero_deadline_msg),
      (''{"agent":{"name":"x"},"reply":{"type":"github.issue_comment","targets":{"repo":"o/r","pr":"7","token":"t"}}}'',
       github_msg),
      (''{"agent":{"name":"x"},"reply":{"type":"slack.message","targets":{"response_url":"https://hooks.test/r"}}}'',
       slack_msg),
      (''{"body":"ok"}'', JObj [(''body'', JStr ''ok'')]),
      (''{"text":"ok"}'', JObj [(''text'', JStr ''ok'')])]\<close>

definition example_platform :: platform where
  "example_platform =
     \<lparr>base64_decode = (\<lambda>b. case map_of example_texts b of None \<Rightarrow> [] | Some t \<Rightarrow> t),
      json_parse = map_of example_values,
      json_stringify =
        (\<lambda>v. case find (\<lambda>(t, w). w = v) example_values of None \<Rightarrow> [] | Some (t, w) \<Rightarrow> t),
      to_string = (\<lambda>v. ''[object Object]'')\<rparr>"

definition example_world :: "proc_event list \<Rightarrow> bool \<Rightarrow> fetch_result \<Rightarrow> world" where
  "example_world evs gkf fr =
     \<lparr>process_env = [(''CURSOR_API_KEY'', ''key'')],
      random_uuid = ''0b5e7c9a-3d41-4f6e-8a27-1c9d2e4f6a80'',
      mkdir_fails = (\<lambda>p. False),
      spawned = Spawned evs,
      group_kill_fails = gkf,
      fetch_outcome = (\<lambda>r. fr)\<rparr>"

definition example_event :: "string \<Rightarrow> PubSubEvent" where
  "example_event b64 = PubSubEvent (Some (PubSubData (Some (PubSubMessage (Some b64)))))"

section \<open>Properties\<close>

subsection \<open>The event loop of runAgent\<close>

lemma run_events_Nil: "run_events g h s [] = s"
  by (simp add: run_events_def)

lemma run_events_Cons: "run_events g h s (e # evs) = run_events g h (on_event g h s e) evs"
  by (simp add: run_events_def)

lemma run_events_append:
  "run_events g h s (xs @ ys) = run_events g h (run_events g h s xs) ys"
  by (simp add: run_events_def)

lemma run_events_data:
  "list_all is_data pre \<Longrightarrow>
   run_events g h s pre = s\<lparr>out := out s @ stdout_of pre, err := err s @ stderr_of pre\<rparr>"
proof (induction pre arbitrary: s)
  case Nil
  then show ?case by (simp add: run_events_Nil)
next
  case (Cons e pre)
  then show ?case by (cases e) (simp_all add: run_events_Cons)
qed

lemma run_events_done:
  "settled s = Some r \<Longrightarrow> \<not> timer_armed s \<Longrightarrow>
   settled (run_events g h s evs) = Some r \<and> kills (run_events g h s evs) = kills s"
proof (induction evs arbitrary: s)
  case Nil
  then show ?case by (simp add: run_events_Nil)
next
  case (Cons e evs)
  then show ?case by (cases e) (simp_all add: run_events_Cons settle_def)
qed

lemma run_events_timer:
  assumes "list_all is_data pre"
  shows "promise_of (run_events g h init_state (pre @ TimerFired # post)) = Rejected (HardTimeout h)"
    and "kills (run_events g h init_state (pre @ TimerFired # post))
           = (if g then [KillGroup, KillProc] else [KillGroup])"
proof -
  let ?s = "on_event g h (run_events g h init_state pre) TimerFired"
  have s: "settled ?s = Some (Inl (HardTimeout h))" "\<not> timer_armed ?s"
          "kills ?s = (if g then [KillGroup, KillProc] else [KillGroup])"
    using assms by (simp_all add: run_events_data init_state_def settle_def)
  have "run_events g h init_state (pre @ TimerFired # post) = run_events g h ?s post"
    by (simp add: run_events_append run_events_Cons)
  with run_events_done [OF s(1) s(2), of g h post] s(3)
  show "promise_of (run_events g h init_state (pre @ TimerFired # post)) = Rejected (HardTimeout h)"
    and "kills (run_events g h init_state (pre @ TimerFired # post))
           = (if g then [KillGroup, KillProc] else [KillGroup])"
    by (simp_all add: promise_of_def)
qed

lemma run_events_close:
  assumes "list_all is_data pre"
  shows "promise_of (run_events g h init_state (pre @ Close c # post))
           = Fulfilled \<lparr>code = (case c of None \<Rightarrow> 1 | Some n \<Rightarrow> n),
                        stdout = stdout_of pre, stderr = stderr_of pre\<rparr>"
    and "kills (run_events g h init_state (pre @ Close c # post)) = []"
proof -
  let ?s = "on_event g h (run_events g h init_state pre) (Close c)"
  let ?r = "\<lparr>code = (case c of None \<Rightarrow> 1 | Some n \<Rightarrow> n),
                        stdout = stdout_of pre, stderr = stderr_of pre\<rparr>"
  have s: "settled ?s = Some (Inr ?r)" "\<not> timer_armed ?s" "kills ?s = []"
    using assms by (simp_all add: run_events_data init_state_def settle_def)
  have "run_events g h init_state (pre @ Close c # post) = run_events g h ?s post"
    by (simp add: run_events_append run_events_Cons)
  with run_events_done [OF s(1) s(2), of g h post] s(3)
  show "promise_of (run_events g h init_state (pre @ Close c # post)) = Fulfilled ?r"
    and "kills (run_events g h init_state (pre @ Close c # post)) = []"
    by (simp_all add: promise_of_def)
qed

lemma proc_events_spawned:
  "proc_events W = pre @ e # post \<Longrightarrow> spawned W = Spawned (pre @ e # post)"
  by (cases "spawned W") (simp_all add: proc_events_def)

lemma runAgent_spawn_throws:
  "\<not> mkdir_fails W (sandbox_of P cid) \<Longrightarrow> spawned W = SpawnThrows e \<Longrightarrow>
   runAgent P W args env cid h =
     (Rejected e, [Mkdir (sandbox_of P cid), Spawn (spawn_of args env (sandbox_of P cid))])"
  by (simp add: runAgent_def Let_def)

lemma runAgent_close:
  assumes "\<not> mkdir_fails W (sandbox_of P cid)"
      and "proc_events W = pre @ Close c # post"
      and "list_all is_data pre"
  shows "runAgent P W args env cid h =
           (Fulfilled \<lparr>code = (case c of None \<Rightarrow> 1 | Some n \<Rightarrow> n),
                        stdout = stdout_of pre, stderr = stderr_of pre\<rparr>,
            [Mkdir (sandbox_of P cid), Spawn (spawn_of args env (sandbox_of P cid)), SetTimeout h])"
  using assms(1,3) proc_events_spawned [OF assms(2)]
  by (simp add: runAgent_def Let_def run_events_close)

subsection \<open>The worker after decoding\<close>

lemma worker_run_task:
  "decode P event = Inr msg \<Longrightarrow> map_of (process_env W) ''CURSOR_API_KEY'' = Some key \<Longrightarrow>
   key \<noteq> [] \<Longrightarrow> worker P W event = run_task P W msg key"
  by (simp add: worker_def)


lemma runAgent_effects_mkdir_first:
  "\<exists>rest. snd (runAgent P W args env cid h) = Mkdir (sandbox_of P cid) # rest"
  by (cases "spawned W") (simp_all add: runAgent_def Let_def)



lemma run_task_effects_mkdir:
  assumes "correlationId_of W msg = Inr cid"
  shows "\<exists>rest. snd (run_task P W msg key) = Mkdir (sandbox_of P cid) # rest"
proof -
  obtain r effs where re: "runAgent P W (agent_args P msg) ((''CURSOR_API_KEY'', key) # process_env W)
                  cid (hardSeconds_of msg) = (r, effs)"
    by (cases "runAgent P W (agent_args P msg) ((''CURSOR_API_KEY'', key) # process_env W)
                  cid (hardSeconds_of msg)")
  from runAgent_effects_mkdir_first [of P W "agent_args P msg"
      "(''CURSOR_API_KEY'', key) # process_env W" cid "hardSeconds_of msg"] re
  obtain rest where rest: "effs = Mkdir (sandbox_of P cid) # rest"
    by auto
  show ?thesis
    using assms(1) re rest
    by (cases r) (auto simp: run_task_def split: prod.splits)
qed



lemma run_task_close:
  assumes "correlationId_of W msg = Inr cid"
      and "\<not> mkdir_fails W (sandbox_of P cid)"
      and "proc_events W = pre @ Close c # post"
      and "list_all is_data pre"
  shows "run_task P W msg key =
           (fst (after_run P W msg
                   \<lparr>code = (case c of None \<Rightarrow> 1 | Some n \<Rightarrow> n),
                    stdout = stdout_of pre, stderr = stderr_of pre\<rparr>),
            [Mkdir (sandbox_of P cid),
             Spawn (spawn_of (agent_args P msg) ((''CURSOR_API_KEY'', key) # process_env W)
                      (sandbox_of P cid)),
             SetTimeout (hardSeconds_of msg)]
            @ snd (after_run P W msg
                     \<lparr>code = (case c of None \<Rightarrow> 1 | Some n \<Rightarrow> n),
                      stdout = stdout_of pre, stderr = stderr_of pre\<rparr>))"
  using assms by (simp add: run_task_def runAgent_close split: prod.splits)

subsection \<open>The two sinks\<close>

lemma reply_not_nullish:
  "reply_type msg = JStr t \<Longrightarrow> \<not> nullish (js_prop msg ''reply'')"
  by (auto simp: reply_type_def opt_prop_def)

lemma github_not_slack: "prefix ''github.'' t \<Longrightarrow> t \<noteq> ''slack.message''"
  by auto

lemma github_step_post:
  assumes "reply_type msg = JStr t" and "prefix ''github.'' t"
      and "\<not> nullish (js_prop (js_prop msg ''reply'') ''targets'')"
  shows "github_step P W msg out_text =
           (await_fetch (fetch_outcome W
              (github_request P (js_prop (js_prop msg ''reply'') ''targets'') out_text)),
            [HttpPost (github_request P (js_prop (js_prop msg ''reply'') ''targets'') out_text)])"
  using assms reply_not_nullish [OF assms(1)]
  by (simp add: github_step_def get_prop_def postGitHub_def Let_def)

lemma github_step_skip:
  "reply_type msg = JStr t \<Longrightarrow> \<not> prefix ''github.'' t \<Longrightarrow>
   github_step P W msg out_text = (Fulfilled (), [])"
  by (simp add: github_step_def)

lemma slack_step_post:
  assumes "reply_type msg = JStr ''slack.message''"
      and "\<not> nullish (js_prop (js_prop msg ''reply'') ''targets'')"
  shows "slack_step P W msg out_text =
           (await_fetch (fetch_outcome W
              (slack_request P (js_prop (js_prop (js_prop msg ''reply'') ''targets'') ''response_url'')
                 out_text)),
            [HttpPost (slack_request P
               (js_prop (js_prop (js_prop msg ''reply'') ''targets'') ''response_url'') out_text)])"
  using assms reply_not_nullish [OF assms(1)]
  by (simp add: slack_step_def get_prop_def Let_def)

lemma slack_step_skip:
  "reply_type msg \<noteq> JStr ''slack.message'' \<Longrightarrow> slack_step P W msg out_text = (Fulfilled (), [])"
  by (simp add: slack_step_def)

lemma dispatch_sink:
  assumes "\<not> nullish (js_prop (js_prop msg ''reply'') ''targets'')"
      and "sink_request P msg out_text = Some req"
  shows "dispatch P W msg out_text = (await_fetch (fetch_outcome W req), [HttpPost req])"
proof -
  from assms(2) obtain t where t: "reply_type msg = JStr t"
    by (cases "reply_type msg") (simp_all add: sink_request_def)
  show ?thesis
  proof (cases "prefix ''github.'' t")
    case True
    then have req: "req = github_request P (js_prop (js_prop msg ''reply'') ''targets'') out_text"
      using assms(2) t by (simp add: sink_request_def)
    have "t \<noteq> ''slack.message''" using True by (rule github_not_slack)
    then have "slack_step P W msg out_text = (Fulfilled (), [])"
      using t by (simp add: slack_step_skip)
    then show ?thesis
      using github_step_post [OF t True assms(1), of P W out_text] req
      by (cases "fetch_outcome W req") (simp_all add: dispatch_def)
  next
    case False
    then have s: "t = ''slack.message''"
      using assms(2) t by (simp add: sink_request_def split: if_splits)
    then have req: "req = slack_request P
        (js_prop (js_prop (js_prop msg ''reply'') ''targets'') ''response_url'') out_text"
      using assms(2) t False by (simp add: sink_request_def)
    have "github_step P W msg out_text = (Fulfilled (), [])"
      using t False by (rule github_step_skip)
    then show ?thesis
      using slack_step_post [OF t [unfolded s] assms(1), of P W out_text] req
      by (simp add: dispatch_def)
  qed
qed

lemma worker_success_sink:
  assumes "decode P event = Inr msg"
      and "map_of (process_env W) ''CURSOR_API_KEY'' = Some key" and "key \<noteq> []"
      and "correlationId_of W msg = Inr cid"
      and "\<not> mkdir_fails W (sandbox_of P cid)"
      and "proc_events W = pre @ Close (Some 0) # post" and "list_all is_data pre"
      and "\<not> nullish (js_prop (js_prop msg ''reply'') ''targets'')"
      and "sink_request P msg (stdout_of pre) = Some req"
  shows "worker P W event =
           (await_fetch (fetch_outcome W req),
            [Mkdir (sandbox_of P cid),
             Spawn (spawn_of (agent_args P msg) ((''CURSOR_API_KEY'', key) # process_env W)
                      (sandbox_of P cid)),
             SetTimeout (hardSeconds_of msg),
             HttpPost req])"
proof -
  have "worker P W event = run_task P W msg key"
    using assms(1-3) by (rule worker_run_task)
  then show ?thesis
    using run_task_close [OF assms(4-7), of key] dispatch_sink [OF assms(8,9), of W]
    by (simp add: after_run_def)
qed

subsection \<open>The sandbox directory\<close>




subsection \<open>Decoding\<close>




subsection \<open>The hard deadline\<close>




subsection \<open>The watchdog\<close>

text \<open>
  Claim C4. When the watchdog fires before the child has closed or failed, \<^verbatim>\<open>runAgent\<close>
  sends SIGKILL to the process group of the child (which was spawned detached, hence
  leads its own group), kills the child directly when signalling the group throws, and
  its promise is rejected with the timeout error: it is never fulfilled, whatever
  events follow.
\<close>

theorem runAgent_deadline_kills_group:
  assumes "\<not> mkdir_fails W (sandbox_of P correlationId)"
      and "proc_events W = pre @ TimerFired # post"
      and "list_all is_data pre"
  shows "runAgent P W args env correlationId hardSeconds =
           (Rejected (HardTimeout hardSeconds),
            [Mkdir (sandbox_of P correlationId),
             Spawn (spawn_of args env (sandbox_of P correlationId)),
             SetTimeout hardSeconds,
             KillGroup] @ (if group_kill_fails W then [KillProc] else []))
         \<and> detached (spawn_of args env (sandbox_of P correlationId))"
  using assms(1,3) proc_events_spawned [OF assms(2)]
  by (simp add: runAgent_def Let_def run_events_timer spawn_of_def)


theorem runAgent_deadline_kills_group_witness:
  "runAgent example_platform
     (example_world [StdoutData ''partial'', TimerFired, Close None] True (Responded 200))
     [] [] (JStr ''task-1'') (JNum 1)
   = (Rejected (HardTimeout (JNum 1)),
      [Mkdir ''/tmp/task-1'', Spawn (spawn_of [] [] ''/tmp/task-1''), SetTimeout (JNum 1),
       KillGroup, KillProc])
   \<and> detached (spawn_of [] [] ''/tmp/task-1'')"
  using runAgent_deadline_kills_group
    [where W = "example_world [StdoutData ''partial'', TimerFired, Close None] True (Responded 200)"
       and P = example_platform and correlationId = "JStr ''task-1''"
       and pre = "[StdoutData ''partial'']" and post = "[Close None]"
       and args = "[]" and env = "[]" and hardSeconds = "JNum 1"]
  by (simp add: example_world_def proc_events_def sandbox_of_def)

subsection \<open>Dispatch failures\<close>




subsection \<open>A failed run\<close>

text \<open>
  Claim C6. When the child closes with an exit code other than 0 before the watchdog
  fires, the worker throws an error whose message is \<^verbatim>\<open>cursor failed: \<close> followed by the
  first 4000 code units of the captured standard error, and no request is sent to any
  sink.
\<close>

theorem worker_nonzero_exit_fails:
  assumes "decode P event = Inr msg"
      and "map_of (process_env W) ''CURSOR_API_KEY'' = Some key" and "key \<noteq> []"
      and "correlationId_of W msg = Inr cid"
      and "\<not> mkdir_fails W (sandbox_of P cid)"
      and "proc_events W = pre @ Close (Some c) # post" and "list_all is_data pre"
      and "c \<noteq> 0"
  shows "fst (worker P W event)
           = Rejected (CursorFailed (''cursor failed: '' @ take 4000 (stderr_of pre)))
       \<and> length (take 4000 (stderr_of pre)) \<le> 4000
       \<and> (\<forall>req. HttpPost req \<notin> set (snd (worker P W event)))"
proof -
  have "worker P W event = run_task P W msg key"
    using assms(1-3) by (rule worker_run_task)
  then show ?thesis
    using run_task_close [OF assms(4-7), of key] assms(8)
    by (simp add: after_run_def)
qed

theorem worker_nonzero_exit_fails_witness:
  "fst (worker example_platform
          (example_world [StderrData ''boom'', Close (Some 2)] False (Responded 200))
          (example_event ''e30=''))
     = Rejected (CursorFailed ''cursor failed: boom'')
   \<and> (\<forall>req. HttpPost req \<notin> set (snd (worker example_platform
          (example_world [StderrData ''boom'', Close (Some 2)] False (Responded 200))
          (example_event ''e30=''))))"
  using worker_nonzero_exit_fails
    [where P = example_platform
       and W = "example_world [StderrData ''boom'', Close (Some 2)] False (Responded 200)"
       and event = "example_event ''e30=''" and msg = "JObj []" and key = "''key''"
       and cid = "JStr ''0b5e7c9a-3d41-4f6e-8a27-1c9d2e4f6a80''"
       and pre = "[StderrData ''boom'']" and c = 2 and post = "[]"]
  by (simp add: example_world_def proc_events_def example_platform_def example_event_def
        example_texts_def
        example_values_def decode_def event_b64_def correlationId_of_def get_prop_def
        falsy_or_def)

subsection \<open>A generated correlation identifier\<close>

text \<open>
  When the decoded message has no \<^verbatim>\<open>correlation_id\<close>, the worker uses what
  \<^verbatim>\<open>crypto.randomUUID()\<close> returned for this invocation, unchanged, as the correlation
  identifier and as the name of the sandbox. What that value is, is the platform's
  doing: nothing is said here about its length or about two calls giving different
  values.
\<close>

lemma worker_uses_generated_id:
  assumes "decode P event = Inr msg"
      and "get_prop msg ''correlation_id'' = Inr JUndefined"
      and "map_of (process_env W) ''CURSOR_API_KEY'' = Some key" and "key \<noteq> []"
  shows "correlationId_of W msg = Inr (JStr (random_uuid W))
       \<and> (\<exists>rest. snd (worker P W event) = Mkdir (''/tmp/'' @ random_uuid W) # rest)"
proof -
  have c: "correlationId_of W msg = Inr (JStr (random_uuid W))"
    using assms(2) by (simp add: correlationId_of_def falsy_or_def)
  have w: "worker P W event = run_task P W msg key"
    using assms(1,3,4) by (rule worker_run_task)
  show ?thesis
    using c w run_task_effects_mkdir [OF c, of P key]
    by (simp add: sandbox_of_def)
qed

subsection \<open>The Slack sink\<close>

text \<open>
  Claim C8. After a run that exited with code 0, for a reply of type \<^verbatim>\<open>slack.message\<close> with
  targets, the worker sends one request, to the response URL, whose body is the JSON
  text of \<^verbatim>\<open>{ text: t }\<close> where \<open>t\<close> is the first 39000 code units of the standard output.
  The length of \<open>t\<close> is the smaller of 39000 and the length of the output: for an output
  of 50000 code units it is 39000, strictly less than the output. Truncating raises
  nothing: the outcome of the invocation is the outcome of the request.
\<close>

theorem worker_slack_text_truncated:
  assumes "decode P event = Inr msg"
      and "map_of (process_env W) ''CURSOR_API_KEY'' = Some key" and "key \<noteq> []"
      and "correlationId_of W msg = Inr cid"
      and "\<not> mkdir_fails W (sandbox_of P cid)"
      and "proc_events W = pre @ Close (Some 0) # post" and "list_all is_data pre"
      and "reply_type msg = JStr ''slack.message''"
      and "js_prop (js_prop msg ''reply'') ''targets'' = targets" and "\<not> nullish targets"
      and "req = slack_request P (js_prop targets ''response_url'') (stdout_of pre)"
  shows "snd (worker P W event) =
           [Mkdir (sandbox_of P cid),
            Spawn (spawn_of (agent_args P msg) ((''CURSOR_API_KEY'', key) # process_env W)
                     (sandbox_of P cid)),
            SetTimeout (hardSeconds_of msg),
            HttpPost req]
       \<and> fst (worker P W event) = await_fetch (fetch_outcome W req)
       \<and> body req = json_stringify P (JObj [(''text'', JStr (take 39000 (stdout_of pre)))])
       \<and> length (take 39000 (stdout_of pre)) = min (length (stdout_of pre)) 39000
       \<and> (length (stdout_of pre) = 50000 \<longrightarrow>
            length (take 39000 (stdout_of pre)) = 39000
            \<and> length (take 39000 (stdout_of pre)) < length (stdout_of pre))"
proof -
  have "sink_request P msg (stdout_of pre) = Some req"
    using assms(8,9,11) by (simp add: sink_request_def)
  then have "worker P W event =
           (await_fetch (fetch_outcome W req),
            [Mkdir (sandbox_of P cid),
             Spawn (spawn_of (agent_args P msg) ((''CURSOR_API_KEY'', key) # process_env W)
                      (sandbox_of P cid)),
             SetTimeout (hardSeconds_of msg),
             HttpPost req])"
    using assms(9,10) by (intro worker_success_sink [OF assms(1-7)]) simp_all
  then show ?thesis
    using assms(11) by (simp add: slack_request_def)
qed

theorem worker_slack_text_truncated_witness:
  "snd (worker example_platform
          (example_world [StdoutData (replicate 50000 CHR ''a''), Close (Some 0)] False
             (Responded 200))
          (example_event ''eyJhZ2VudCI6eyJuYW1lIjoieCJ9LCJyZXBseSI6eyJ0eXBlIjoic2xhY2subWVzc2FnZSIsInRhcmdldHMiOnsicmVzcG9uc2VfdXJsIjoiaHR0cHM6Ly9ob29rcy50ZXN0L3IifX19'')) ! 3
     = HttpPost (slack_request example_platform (JStr ''https://hooks.test/r'')
                   (replicate 50000 CHR ''a''))
   \<and> body (slack_request example_platform (JStr ''https://hooks.test/r'')
                   (replicate 50000 CHR ''a''))
     = json_stringify example_platform (JObj [(''text'', JStr (replicate 39000 CHR ''a''))])"
  using worker_slack_text_truncated
    [where P = example_platform
       and W = "example_world [StdoutData (replicate 50000 CHR ''a''), Close (Some 0)] False
             (Responded 200)"
       and event = "example_event ''eyJhZ2VudCI6eyJuYW1lIjoieCJ9LCJyZXBseSI6eyJ0eXBlIjoic2xhY2subWVzc2FnZSIsInRhcmdldHMiOnsicmVzcG9uc2VfdXJsIjoiaHR0cHM6Ly9ob29rcy50ZXN0L3IifX19''"
       and msg = slack_msg and key = "''key''"
       and cid = "JStr ''0b5e7c9a-3d41-4f6e-8a27-1c9d2e4f6a80''"
       and pre = "[StdoutData (replicate 50000 CHR ''a'')]" and post = "[]"
       and targets = "JObj [(''response_url'', JStr ''https://hooks.test/r'')]"
       and req = "slack_request example_platform (JStr ''https://hooks.test/r'')
                   (replicate 50000 CHR ''a'')"]
  by (simp add: example_world_def proc_events_def example_platform_def example_event_def
        example_texts_def
        example_values_def decode_def event_b64_def correlationId_of_def get_prop_def
        falsy_or_def slack_msg_def reply_type_def opt_prop_def)

subsection \<open>The GitHub sink\<close>



subsection \<open>A null exit code\<close>

text \<open>
  Claim C10. When the child closes with a \<^verbatim>\<open>null\<close> exit code before the watchdog fires,
  the promise of \<^verbatim>\<open>runAgent\<close> is fulfilled with code 1, and lines 120 to 131 then throw
  the failure error for it.
\<close>

theorem runAgent_null_exit_code:
  assumes "\<not> mkdir_fails W (sandbox_of P correlationId)"
      and "proc_events W = pre @ Close None # post"
      and "list_all is_data pre"
  shows "fst (runAgent P W args env correlationId hardSeconds)
           = Fulfilled \<lparr>code = 1, stdout = stdout_of pre, stderr = stderr_of pre\<rparr>
       \<and> fst (after_run P W msg \<lparr>code = 1, stdout = stdout_of pre, stderr = stderr_of pre\<rparr>)
           = Rejected (CursorFailed (''cursor failed: '' @ take 4000 (stderr_of pre)))"
  using runAgent_close [OF assms, of args env hardSeconds]
  by (simp add: after_run_def)

theorem runAgent_null_exit_code_witness:
  "fst (runAgent example_platform
          (example_world [StdoutData ''half'', Close None] False (Responded 200))
          [] [] (JStr ''task-1'') (JNum 900))
     = Fulfilled \<lparr>code = 1, stdout = ''half'', stderr = []\<rparr>
   \<and> fst (after_run example_platform
             (example_world [StdoutData ''half'', Close None] False (Responded 200))
             github_msg \<lparr>code = 1, stdout = ''half'', stderr = []\<rparr>)
       = Rejected (CursorFailed ''cursor failed: '')"
  using runAgent_null_exit_code
    [where P = example_platform
       and W = "example_world [StdoutData ''half'', Close None] False (Responded 200)"
       and correlationId = "JStr ''task-1''" and pre = "[StdoutData ''half'']" and post = "[]"
       and args = "[]" and env = "[]" and hardSeconds = "JNum 900" and msg = github_msg]
  by (simp add: example_world_def proc_events_def sandbox_of_def)

end
